theory Spec2Isabelle
  imports Complex_Main "HOL-Library.Log_Nat"
begin

section \<open>JavaScript values used by the run viewer\<close>

text \<open>
  The component \<^verbatim>\<open>OpenAIAssistantDebugger\<close> of \<^verbatim>\<open>src/artifacts/index.jsx\<close> works on
  JavaScript numbers. A JavaScript number is an IEEE double; every finite double is a
  rational, so a finite number is modelled by its exact value in \<^typ>\<open>rat\<close>.
  \<^verbatim>\<open>null\<close> and \<^verbatim>\<open>NaN\<close> are values of their own. Infinities are left out: no
  caller of the formatter produces one.
\<close>

datatype jsnum = Null | NaN | Num rat

text \<open>\<^verbatim>\<open>!ms\<close>: \<^verbatim>\<open>null\<close>, \<^verbatim>\<open>NaN\<close> and zero are falsy, every other number is truthy.\<close>

fun falsy :: "jsnum \<Rightarrow> bool" where
  "falsy Null = True"
| "falsy NaN = True"
| "falsy (Num x) = (x = 0)"

text \<open>\<^verbatim>\<open>isNaN(ms)\<close> converts with ToNumber first; \<^verbatim>\<open>null\<close> converts to 0.\<close>

fun isNaN :: "jsnum \<Rightarrow> bool" where
  "isNaN NaN = True"
| "isNaN Null = False"
| "isNaN (Num x) = False"

subsection \<open>Arithmetic of doubles\<close>

text \<open>\<^verbatim>\<open>Math.round\<close> rounds to the nearest integer, a half upwards; \<^verbatim>\<open>Math.floor\<close> is the floor.
  Both are exact on doubles.\<close>

definition Math_round :: "rat \<Rightarrow> int" where
  "Math_round x = \<lfloor>x + 1 / 2\<rfloor>"

definition Math_floor :: "rat \<Rightarrow> int" where
  "Math_floor x = \<lfloor>x\<rfloor>"

text \<open>Rounding of a rational to the nearest integer, a tie to the even neighbour.\<close>

definition round_half_even :: "rat \<Rightarrow> int" where
  "round_half_even y =
     (let f = \<lfloor>y\<rfloor>; r = y - of_int f
      in if r < 1 / 2 then f else if 1 / 2 < r then f + 1 else if even f then f else f + 1)"

text \<open>
  The double nearest to a rational \<open>x \<ge> 1\<close> (round to nearest, ties to even): with
  \<open>2\<^sup>e \<le> x < 2\<^sup>e\<^sup>+\<^sup>1\<close> the 53-bit significand is \<open>x / 2\<^sup>e\<^sup>-\<^sup>5\<^sup>2\<close> rounded to an integer.
  The formatter divides only numbers that are at least the divisor, so every quotient it
  rounds is at least 1.
\<close>

definition nearest_double :: "rat \<Rightarrow> rat" where
  "nearest_double x =
     (let e = bitlen \<lfloor>x\<rfloor> - 1
      in if e \<le> 52
         then of_int (round_half_even (x * 2 ^ nat (52 - e))) / 2 ^ nat (52 - e)
         else of_int (round_half_even (x / 2 ^ nat (e - 52))) * 2 ^ nat (e - 52))"

text \<open>\<^verbatim>\<open>a / b\<close> on doubles: the exact quotient, rounded to a double.\<close>

definition js_div :: "rat \<Rightarrow> rat \<Rightarrow> rat" where
  "js_div a b = nearest_double (a / b)"

text \<open>\<^verbatim>\<open>a % b\<close> for \<open>a \<ge> 0\<close>, \<open>b > 0\<close>: the remainder is a double, computed exactly.\<close>

definition js_rem :: "rat \<Rightarrow> rat \<Rightarrow> rat" where
  "js_rem a b = a - b * of_int \<lfloor>a / b\<rfloor>"

subsection \<open>Rendering an integer-valued number\<close>

definition digit_char :: "nat \<Rightarrow> char" where
  "digit_char d = char_of (48 + d)"

text \<open>The decimal digits of a natural number.\<close>

function nat_toString :: "nat \<Rightarrow> string" where
  "nat_toString n =
     (if n < 10 then [digit_char n] else nat_toString (n div 10) @ [digit_char (n mod 10)])"
  by pat_completeness auto
termination
  by (relation "measure (\<lambda>n. n)") auto

declare nat_toString.simps [simp del]

text \<open>The same for a non-negative integer.\<close>

function digits :: "int \<Rightarrow> string" where
  "digits a =
     (if a < 10 then [digit_char (nat a)] else digits (a div 10) @ [digit_char (nat (a mod 10))])"
  by pat_completeness auto
termination
  by (relation "measure nat") auto

declare digits.simps [simp del]

text \<open>
  Number-to-string conversion, as a template literal performs it, writes the shortest
  decimal that reads back as the same double: integers \<open>s\<close>, \<open>k\<close>, \<open>n\<close> with
  \<open>10\<^sup>k\<^sup>-\<^sup>1 \<le> s < 10\<^sup>k\<close> such that the double nearest to \<open>s \<times> 10\<^sup>n\<^sup>-\<^sup>k\<close> is the number,
  with \<open>k\<close> as small as possible, and \<open>s \<times> 10\<^sup>n\<^sup>-\<^sup>k\<close> as close to the number as possible
  (the even \<open>s\<close> of two equally close).

  For an integer \<open>a\<close> of \<open>n\<close> digits, \<open>shortest_digits a n k fuel\<close> tries \<open>k\<close>, \<open>k + 1\<close>,
  ... digits: the candidates with \<open>k\<close> digits are \<open>a\<close> cut to its first \<open>k\<close> digits and that
  number plus one. Seventeen digits identify every double. When the digits run out (the
  integer is no double), all digits of \<open>a\<close> are the result.
\<close>

fun shortest_digits :: "int \<Rightarrow> nat \<Rightarrow> nat \<Rightarrow> nat \<Rightarrow> int \<times> nat" where
  "shortest_digits a n k 0 = (a, n)"
| "shortest_digits a n k (Suc fuel) =
     (let p = 10 ^ (n - k); lo = a div p; hi = lo + 1;
          lo_ok = (nearest_double (of_int (lo * p)) = of_int a);
          hi_ok = (hi < 10 ^ k \<and> nearest_double (of_int (hi * p)) = of_int a)
      in if lo_ok \<and> hi_ok
         then (if a - lo * p < hi * p - a \<or> (a - lo * p = hi * p - a \<and> even lo)
               then (lo, k) else (hi, k))
         else if lo_ok then (lo, k)
         else if hi_ok then (hi, k)
         else shortest_digits a n (Suc k) fuel)"

text \<open>The digits \<open>s\<close> (\<open>k\<close> of them) of a number with \<open>n\<close> digits before the point: followed
  by zeros up to 21 digits, in exponent notation beyond.\<close>

definition render_digits :: "int \<Rightarrow> nat \<Rightarrow> nat \<Rightarrow> string" where
  "render_digits s k n =
     (let ds = digits s
      in if n \<le> 21 then ds @ replicate (n - k) (CHR ''0'')
         else (if k = 1 then ds else hd ds # CHR ''.'' # tl ds) @ ''e+'' @ nat_toString (n - 1))"

text \<open>
  A non-negative integer-valued number. Below \<open>2\<^sup>5\<^sup>3\<close> every integer is a double and no
  shorter decimal reads back as it, so all its digits are written. From \<open>2\<^sup>5\<^sup>3\<close> on the
  shortest digits are searched; a number that reads back from the single digit 1 (as
  \<open>10\<^sup>2\<^sup>3\<close> does, whose double lies below it) has one more digit before the point.
\<close>

definition unsigned_toString :: "int \<Rightarrow> string" where
  "unsigned_toString a =
     (if a < 2 ^ 53 then digits a
      else
        let n = length (digits a) in
        if nearest_double (10 ^ n) = of_int a then render_digits 1 1 (n + 1)
        else case shortest_digits a n 1 17 of (s, k) \<Rightarrow> render_digits s k n)"

text \<open>Number-to-string conversion of an integer-valued number; a negative one has a
  leading minus sign.\<close>

definition Number_toString :: "int \<Rightarrow> string" where
  "Number_toString i =
     (if i < 0 then CHR ''-'' # unsigned_toString (- i) else unsigned_toString i)"

text \<open>
  \<^verbatim>\<open>x.toFixed(1)\<close> for \<open>x \<ge> 0\<close>: the integer \<open>n\<close> with \<open>n / 10\<close> closest to the exact
  value of \<open>x\<close>, the larger one of two; then the digits of \<open>n\<close> with a point before the
  last one.
\<close>

definition toFixed1 :: "rat \<Rightarrow> string" where
  "toFixed1 x =
     (let n = \<lfloor>x * 10 + 1 / 2\<rfloor>
      in Number_toString (n div 10) @ ''.'' @ Number_toString (n mod 10))"

section \<open>The duration formatter\<close>

text \<open>
  \<^verbatim>\<open>
  const formatDuration = (ms) => {
    if (!ms || isNaN(ms)) return 'N/A';
    if (ms < 1000) return `${Math.round(ms)}ms`;
    const totalSeconds = ms / 1000;
    if (totalSeconds < 60) {
      return `${Math.floor(totalSeconds) === totalSeconds ?
        Math.floor(totalSeconds) : totalSeconds.toFixed(1)}s`;
    }
    const minutes = Math.floor(totalSeconds / 60);
    const seconds = Math.round(totalSeconds % 60);
    return seconds > 0 ? `${minutes}m ${seconds}s` : `${minutes}m`;
  };
  \<close>
\<close>

fun formatDuration :: "jsnum \<Rightarrow> string" where
  "formatDuration Null = ''N/A''"
| "formatDuration NaN = ''N/A''"
| "formatDuration (Num ms) =
     (if falsy (Num ms) \<or> isNaN (Num ms) then ''N/A''
      else if ms < 1000 then Number_toString (Math_round ms) @ ''ms''
      else
        let totalSeconds = js_div ms 1000 in
        if totalSeconds < 60 then
          (if of_int (Math_floor totalSeconds) = totalSeconds
           then Number_toString (Math_floor totalSeconds)
           else toFixed1 totalSeconds) @ ''s''
        else
          let minutes = Math_floor (js_div totalSeconds 60);
              seconds = Math_round (js_rem totalSeconds 60)
          in if 0 < seconds
             then Number_toString minutes @ ''m '' @ Number_toString seconds @ ''s''
             else Number_toString minutes @ ''m'')"

declare formatDuration.simps(3) [simp del]

section \<open>Run data\<close>

text \<open>
  Timestamps are integers: the API sends epoch seconds, \<^verbatim>\<open>fetchRunData\<close> multiplies them
  by 1000, and \<^verbatim>\<open>Date.now()\<close> is an integer number of milliseconds. Sums, differences and
  comparisons of such integers are exact in doubles, so they are modelled in \<^typ>\<open>int\<close>.
  A timestamp that may be \<^verbatim>\<open>null\<close> is an \<^typ>\<open>int option\<close>.
\<close>

text \<open>Truthiness of a nullable number (\<^verbatim>\<open>x ? a : b\<close>): \<^verbatim>\<open>null\<close> and 0 are falsy.\<close>

fun truthy :: "int option \<Rightarrow> bool" where
  "truthy None = False"
| "truthy (Some v) = (v \<noteq> 0)"

text \<open>ToNumber, applied by \<^verbatim>\<open><\<close> and \<^verbatim>\<open>-\<close> to their operands: \<^verbatim>\<open>null\<close> becomes 0.\<close>

fun ToNumber :: "int option \<Rightarrow> int" where
  "ToNumber None = 0"
| "ToNumber (Some v) = v"

text \<open>
  A raw timestamp as a record of the API carries it: epoch seconds of a moment other than
  the epoch itself, inside the range of JavaScript time values (8.64e15 milliseconds on
  either side of the epoch). In that range the product with 1000 is an integer that a
  double holds exactly.
\<close>

definition epoch_seconds :: "int \<Rightarrow> bool" where
  "epoch_seconds c = (c \<noteq> 0 \<and> \<bar>c\<bar> * 1000 \<le> 8640000000000000)"

text \<open>A step as the API sends it, and as \<^verbatim>\<open>fetchRunData\<close> stores it (the spread keeps
  \<^verbatim>\<open>created_at\<close>; identifier, status and detail payload play no part below).\<close>

record raw_step =
  raw_created_at :: int
  raw_completed_at :: "int option"
  raw_type :: "string option"

record step =
  created_at :: int
  started_at :: int
  completed_at :: "int option"
  step_type :: "string option"

record raw_run =
  raw_id :: string
  raw_thread_id :: string
  raw_assistant_id :: string
  raw_status :: string
  run_created_at :: int
  raw_run_completed_at :: "int option"

record run_data =
  run_id :: string
  thread_id :: string
  assistant_id :: string
  status :: string
  run_started_at :: int
  run_completed_at :: int
  steps :: "step list"

section \<open>The timeline builder\<close>

text \<open>An entry of the array that \<^verbatim>\<open>prepareTimelineData\<close> returns. The object of a gap has
  no \<^verbatim>\<open>isSelected\<close> property.\<close>

record segment =
  name :: string
  actualStart :: int
  duration :: int
  actualEnd :: int
  index :: int
  isSelected :: "bool option"
  isGap :: bool
  durationLabel :: string

text \<open>The object literal that the three gap branches push.\<close>

definition gap :: "int \<Rightarrow> int \<Rightarrow> int \<Rightarrow> segment" where
  "gap gapStart gapDuration gapEnd =
     \<lparr>name = ''<unknown>'', actualStart = gapStart, duration = gapDuration,
      actualEnd = gapEnd, index = - 1, isSelected = None, isGap = True,
      durationLabel = formatDuration (Num (of_int gapDuration))\<rparr>"

text \<open>\<^verbatim>\<open>step.type || 'Unknown'\<close>: a missing or empty type is falsy.\<close>

fun type_or_Unknown :: "string option \<Rightarrow> string" where
  "type_or_Unknown None = ''Unknown''"
| "type_or_Unknown (Some t) = (if t = [] then ''Unknown'' else t)"

text \<open>
  The body of \<^verbatim>\<open>runData.steps.forEach((step, index) => ...)\<close>: the remaining steps are the
  list, \<^verbatim>\<open>nextStep\<close> is the head of its tail (\<^verbatim>\<open>null\<close> after the last step).
  \<^verbatim>\<open>
      const actualStart = step.started_at - startTime;
      const actualEnd = step.completed_at ? step.completed_at - startTime : (endTime - startTime);
      const duration = actualEnd - actualStart;
      result.push({ name: `${index + 1}. ${step.type || 'Unknown'}`, actualStart, duration,
        actualEnd, index, isSelected: selectedStepIndex === index, isGap: false,
        durationLabel: formatDuration(duration) });
      const nextStep = index < runData.steps.length - 1 ? runData.steps[index + 1] : null;
      if (nextStep && step.completed_at < nextStep.started_at) {
        const gapStart = step.completed_at - startTime;
        const gapEnd = nextStep.started_at - startTime;
        const gapDuration = gapEnd - gapStart;
        result.push({ name: `<unknown>`, actualStart: gapStart, duration: gapDuration,
          actualEnd: gapEnd, index: -1, isGap: true, durationLabel: formatDuration(gapDuration) });
      }
  \<close>
\<close>

definition stepSegment :: "int \<Rightarrow> int \<Rightarrow> int option \<Rightarrow> nat \<Rightarrow> step \<Rightarrow> segment" where
  "stepSegment startTime endTime selectedStepIndex i st =
     (let actualStart = started_at st - startTime;
          actualEnd = (if truthy (completed_at st) then ToNumber (completed_at st) - startTime
                       else endTime - startTime);
          duration = actualEnd - actualStart
      in \<lparr>name = nat_toString (i + 1) @ ''. '' @ type_or_Unknown (step_type st),
          actualStart = actualStart, duration = duration, actualEnd = actualEnd,
          index = int i, isSelected = Some (selectedStepIndex = Some (int i)), isGap = False,
          durationLabel = formatDuration (Num (of_int duration))\<rparr>)"

definition gapAfter :: "int \<Rightarrow> step \<Rightarrow> step list \<Rightarrow> segment list" where
  "gapAfter startTime st rest =
     (case rest of
        [] \<Rightarrow> []
      | nextStep # _ \<Rightarrow>
          if ToNumber (completed_at st) < started_at nextStep then
            (let gapStart = ToNumber (completed_at st) - startTime;
                 gapEnd = started_at nextStep - startTime;
                 gapDuration = gapEnd - gapStart
             in [gap gapStart gapDuration gapEnd])
          else [])"

fun forEachStep :: "int \<Rightarrow> int \<Rightarrow> int option \<Rightarrow> nat \<Rightarrow> step list \<Rightarrow> segment list" where
  "forEachStep startTime endTime selectedStepIndex i [] = []"
| "forEachStep startTime endTime selectedStepIndex i (st # rest) =
     stepSegment startTime endTime selectedStepIndex i st
       # gapAfter startTime st rest
       @ forEachStep startTime endTime selectedStepIndex (Suc i) rest"

text \<open>
  \<^verbatim>\<open>
    if (runData.steps.length > 0) {
      const firstStep = runData.steps[0];
      if (firstStep.started_at > startTime) {
        const gapDuration = firstStep.started_at - startTime;
        result.push({ ..., actualStart: 0, duration: gapDuration, actualEnd: gapDuration, ... });
      }
    }
  \<close>
\<close>

definition initialGap :: "int \<Rightarrow> step list \<Rightarrow> segment list" where
  "initialGap startTime ss =
     (case ss of
        [] \<Rightarrow> []
      | firstStep # _ \<Rightarrow>
          if startTime < started_at firstStep then
            (let gapDuration = started_at firstStep - startTime
             in [gap 0 gapDuration gapDuration])
          else [])"

text \<open>
  \<^verbatim>\<open>
    const lastStep = runData.steps[runData.steps.length - 1];
    if (lastStep && lastStep.completed_at < endTime) {
      const gapStart = lastStep.completed_at - startTime;
      const gapDuration = endTime - lastStep.completed_at;
      result.push({ ..., actualStart: gapStart, duration: gapDuration,
        actualEnd: endTime - startTime, ... });
    }
  \<close>
\<close>

definition finalGap :: "int \<Rightarrow> int \<Rightarrow> step list \<Rightarrow> segment list" where
  "finalGap startTime endTime ss =
     (if ss = [] then []
      else
        let lastStep = last ss in
        if ToNumber (completed_at lastStep) < endTime then
          (let gapStart = ToNumber (completed_at lastStep) - startTime;
               gapDuration = endTime - ToNumber (completed_at lastStep)
           in [gap gapStart gapDuration (endTime - startTime)])
        else [])"

text \<open>\<^verbatim>\<open>prepareTimelineData\<close> reads the state variables \<^verbatim>\<open>runData\<close> (\<^verbatim>\<open>null\<close> before the
  first successful fetch) and \<^verbatim>\<open>selectedStepIndex\<close>; here they are its arguments.\<close>

definition prepareTimelineData :: "run_data option \<Rightarrow> int option \<Rightarrow> segment list" where
  "prepareTimelineData runData selectedStepIndex =
     (case runData of
        None \<Rightarrow> []
      | Some rd \<Rightarrow>
          if steps rd = [] then []
          else
            let startTime = run_started_at rd; endTime = run_completed_at rd
            in initialGap startTime (steps rd)
               @ forEachStep startTime endTime selectedStepIndex 0 (steps rd)
               @ finalGap startTime endTime (steps rd))"

section \<open>Component state, fetching and selection\<close>

text \<open>
  What \<^verbatim>\<open>fetch\<close> and the reading of the body give for one request: the promise rejects
  with an error message, or a response arrives. \<^verbatim>\<open>JSON.parse\<close> of the body text is part of
  the response: \<open>None\<close> when the text is not JSON (\<^verbatim>\<open>responseJson\<close> stays \<^verbatim>\<open>null\<close>),
  otherwise the object of the API (a run, or the \<^verbatim>\<open>data\<close> array of a step list).
\<close>

record 'a response =
  resp_status :: nat
  resp_statusText :: string
  resp_ok :: bool
  resp_text :: string
  resp_json :: "'a option"

datatype 'a fetch_result = Rejected string | Resolved "'a response"

text \<open>The world outside the component: the two endpoints by URL, the clock, and the
  message the engine puts into a TypeError (reading a property of \<^verbatim>\<open>null\<close>).\<close>

record env =
  fetch_run :: "string \<Rightarrow> raw_run fetch_result"
  fetch_steps :: "string \<Rightarrow> raw_step list fetch_result"
  Date_now :: int
  typeErrorMessage :: string

text \<open>\<^verbatim>\<open>responseJson || responseText\<close>, as stored in the debug information.\<close>

datatype 'a debug_body = BodyJson 'a | BodyText string

record debug_info =
  runUrl :: "string option"
  runHeaders :: "string option"
  runStatus :: "nat option"
  runStatusText :: "string option"
  runResponse :: "raw_run debug_body option"
  stepsUrl :: "string option"
  stepsHeaders :: "string option"
  stepsStatus :: "nat option"
  stepsStatusText :: "string option"
  stepsResponse :: "raw_step list debug_body option"

definition empty_debug_info :: debug_info where
  "empty_debug_info =
     \<lparr>runUrl = None, runHeaders = None, runStatus = None, runStatusText = None,
      runResponse = None, stepsUrl = None, stepsHeaders = None, stepsStatus = None,
      stepsStatusText = None, stepsResponse = None\<rparr>"

text \<open>The \<^verbatim>\<open>useState\<close> variables of the component and the \<^verbatim>\<open>stepRefs\<close> object; of the
  latter only the keys that hold a mounted list item matter.\<close>

record app_state =
  runId :: string
  threadId :: string
  assistantId :: string
  apiKey :: string
  debugMode :: bool
  debugInfo :: "debug_info option"
  runData :: "run_data option"
  loading :: bool
  error :: "string option"
  selectedStepIndex :: "int option"
  stepRefs :: "int set"

text \<open>A \<^verbatim>\<open>try\<close> block either throws an \<^verbatim>\<open>Error\<close> with a message or yields its value.\<close>

datatype 'a outcome = Threw string | Value 'a

text \<open>\<^verbatim>\<open>err.message || fallback\<close>: the empty message is falsy.\<close>

definition message_or :: "string \<Rightarrow> string \<Rightarrow> string" where
  "message_or msg fallback = (if msg = [] then fallback else msg)"

definition run_url :: "app_state \<Rightarrow> string" where
  "run_url st = ''https://api.openai.com/v1/threads/'' @ threadId st @ ''/runs/'' @ runId st"

definition steps_url :: "app_state \<Rightarrow> string" where
  "steps_url st =
     ''https://api.openai.com/v1/threads/'' @ threadId st @ ''/runs/'' @ runId st
       @ ''/steps?limit=100''"

text \<open>The masked header
  \<^verbatim>\<open>`Bearer ${apiKey.substring(0, 3)}...${apiKey.substring(apiKey.length - 3)}`\<close>;
  \<^verbatim>\<open>substring\<close> clamps a negative start to 0, as the subtraction on \<^typ>\<open>nat\<close> does.\<close>

definition masked_authorization :: "string \<Rightarrow> string" where
  "masked_authorization k = ''Bearer '' @ take 3 k @ ''...'' @ drop (length k - 3) k"

text \<open>\<^verbatim>\<open>setDebugInfo(prevInfo => ({...prevInfo, ...}))\<close>: spreading \<^verbatim>\<open>null\<close> gives no fields.\<close>

definition update_debug :: "(debug_info \<Rightarrow> debug_info) \<Rightarrow> app_state \<Rightarrow> app_state" where
  "update_debug f st =
     st\<lparr>debugInfo := Some (f (case debugInfo st of None \<Rightarrow> empty_debug_info | Some d \<Rightarrow> d))\<rparr>"

definition body_view :: "'a response \<Rightarrow> 'a debug_body" where
  "body_view r = (case resp_json r of Some j \<Rightarrow> BodyJson j | None \<Rightarrow> BodyText (resp_text r))"

text \<open>
  The first inner \<^verbatim>\<open>try\<close>: request the run, record status and body when debugging, throw
  on a status that is not ok; whatever is thrown is caught and thrown again as
  \<^verbatim>\<open>Error fetching run details: ...\<close>. Its value is \<^verbatim>\<open>runInfo\<close>.
\<close>

definition request_run :: "env \<Rightarrow> app_state \<Rightarrow> app_state \<times> raw_run option outcome" where
  "request_run e st =
     (case fetch_run e (run_url st) of
        Rejected msg \<Rightarrow>
          (st, Threw (''Error fetching run details: '' @ message_or msg ''Network error''))
      | Resolved r \<Rightarrow>
          let st' = (if debugMode st
                     then update_debug (\<lambda>d. d\<lparr>runStatus := Some (resp_status r),
                            runStatusText := Some (resp_statusText r),
                            runResponse := Some (body_view r)\<rparr>) st
                     else st)
          in if \<not> resp_ok r
             then (st', Threw (''Error fetching run details: ''
                     @ message_or (''Run API request failed with status ''
                         @ nat_toString (resp_status r) @ '': '' @ resp_text r) ''Network error''))
             else (st', Value (resp_json r)))"

text \<open>The second inner \<^verbatim>\<open>try\<close>, for the steps; its value is \<^verbatim>\<open>stepsData\<close>.\<close>

definition request_steps :: "env \<Rightarrow> app_state \<Rightarrow> app_state \<times> raw_step list option outcome" where
  "request_steps e st =
     (case fetch_steps e (steps_url st) of
        Rejected msg \<Rightarrow>
          (st, Threw (''Error fetching run steps: '' @ message_or msg ''Network error''))
      | Resolved r \<Rightarrow>
          let st' = (if debugMode st
                     then update_debug (\<lambda>d. d\<lparr>stepsStatus := Some (resp_status r),
                            stepsStatusText := Some (resp_statusText r),
                            stepsResponse := Some (body_view r)\<rparr>) st
                     else st)
          in if \<not> resp_ok r
             then (st', Threw (''Error fetching run steps: ''
                     @ message_or (''Steps API request failed with status ''
                         @ nat_toString (resp_status r) @ '': '' @ resp_text r) ''Network error''))
             else (st', Value (resp_json r)))"

text \<open>
  \<^verbatim>\<open>
      const transformedSteps = stepsData.data.map(step => ({
        ...step,
        started_at: step.created_at * 1000,
        completed_at: step.completed_at ? step.completed_at * 1000 : null
      }));
      transformedSteps.sort((a, b) => a.created_at - b.created_at);
  \<close>
  \<^verbatim>\<open>Array.prototype.sort\<close> is stable, as \<^const>\<open>sort_key\<close> is.
\<close>

definition transformStep :: "raw_step \<Rightarrow> step" where
  "transformStep s =
     \<lparr>created_at = raw_created_at s,
      started_at = raw_created_at s * 1000,
      completed_at = (if truthy (raw_completed_at s)
                      then Some (ToNumber (raw_completed_at s) * 1000) else None),
      step_type = raw_type s\<rparr>"

definition transformedSteps :: "raw_step list \<Rightarrow> step list" where
  "transformedSteps data = sort_key created_at (map transformStep data)"

text \<open>
  \<^verbatim>\<open>
      const processedData = {
        id: runInfo.id, thread_id: runInfo.thread_id,
        assistant_id: runInfo.assistant_id || assistantId, status: runInfo.status,
        started_at: runInfo.created_at * 1000,
        completed_at: runInfo.completed_at ? runInfo.completed_at * 1000 : Date.now(),
        steps: transformedSteps
      };
  \<close>
\<close>

definition processedData :: "env \<Rightarrow> app_state \<Rightarrow> raw_run \<Rightarrow> step list \<Rightarrow> run_data" where
  "processedData e st runInfo ss =
     \<lparr>run_id = raw_id runInfo,
      thread_id = raw_thread_id runInfo,
      assistant_id = message_or (raw_assistant_id runInfo) (assistantId st),
      status = raw_status runInfo,
      run_started_at = run_created_at runInfo * 1000,
      run_completed_at = (if truthy (raw_run_completed_at runInfo)
                          then ToNumber (raw_run_completed_at runInfo) * 1000 else Date_now e),
      steps = ss\<rparr>"

text \<open>The guard at the head of \<^verbatim>\<open>fetchRunData\<close>: \<^verbatim>\<open>!runId || !threadId || !apiKey\<close>; the
  three are strings, and the empty string is the falsy one.\<close>

definition inputs_missing :: "app_state \<Rightarrow> bool" where
  "inputs_missing st = (runId st = [] \<or> threadId st = [] \<or> apiKey st = [])"

text \<open>What \<^verbatim>\<open>fetchRunData\<close> does after the guard and before the first request:
  \<^verbatim>\<open>setLoading(true); setError(null); setDebugInfo(null);\<close> and, when debugging, the
  first \<^verbatim>\<open>setDebugInfo\<close>.\<close>

definition fetch_begin :: "app_state \<Rightarrow> app_state" where
  "fetch_begin st =
     (let st1 = st\<lparr>loading := True, error := None, debugInfo := None\<rparr>
      in if debugMode st
         then st1\<lparr>debugInfo := Some (empty_debug_info\<lparr>runUrl := Some (run_url st),
                   runHeaders := Some (masked_authorization (apiKey st))\<rparr>)\<rparr>
         else st1)"

text \<open>The outer \<^verbatim>\<open>catch\<close> and \<^verbatim>\<open>finally\<close>.\<close>

definition fetch_failed :: "string \<Rightarrow> app_state \<Rightarrow> app_state" where
  "fetch_failed msg st =
     st\<lparr>error := Some (''Error: '' @ message_or msg ''Unknown error occurred''),
        loading := False\<rparr>"

text \<open>
  \<^verbatim>\<open>fetchRunData\<close>: the state after the function has run to its end, and the URLs it
  requested, in order. \<^verbatim>\<open>stepsData.data\<close> is read before \<^verbatim>\<open>runInfo.id\<close>; either is a
  TypeError when the body was not JSON.
\<close>

definition apply_responses ::
  "env \<Rightarrow> app_state \<Rightarrow> app_state \<Rightarrow> raw_run option \<Rightarrow> raw_step list option \<Rightarrow> app_state" where
  "apply_responses e st st4 runInfo stepsData =
     (case stepsData of
        None \<Rightarrow> fetch_failed (typeErrorMessage e) st4
      | Some data \<Rightarrow>
          (case runInfo of
             None \<Rightarrow> fetch_failed (typeErrorMessage e) st4
           | Some info \<Rightarrow>
               st4\<lparr>runData := Some (processedData e st info (transformedSteps data)),
                   loading := False\<rparr>))"

definition fetch_steps_phase :: "env \<Rightarrow> app_state \<Rightarrow> app_state \<Rightarrow> raw_run option \<Rightarrow> app_state" where
  "fetch_steps_phase e st st2 runInfo =
     (let st3 = (if debugMode st
                 then update_debug (\<lambda>d. d\<lparr>stepsUrl := Some (steps_url st),
                        stepsHeaders := Some (masked_authorization (apiKey st))\<rparr>) st2
                 else st2)
      in case request_steps e st3 of
           (st4, Threw msg) \<Rightarrow> fetch_failed msg st4
         | (st4, Value stepsData) \<Rightarrow> apply_responses e st st4 runInfo stepsData)"

definition fetchRunData :: "env \<Rightarrow> app_state \<Rightarrow> app_state \<times> string list" where
  "fetchRunData e st =
     (if inputs_missing st
      then (st\<lparr>error := Some ''Run ID, Thread ID, and API Key are required''\<rparr>, [])
      else
        case request_run e (fetch_begin st) of
          (st2, Threw msg) \<Rightarrow> (fetch_failed msg st2, [run_url st])
        | (st2, Value runInfo) \<Rightarrow>
            (fetch_steps_phase e st st2 runInfo, [run_url st, steps_url st]))"

text \<open>
  \<^verbatim>\<open>
  const scrollToStep = (index) => {
    setSelectedStepIndex(index);
    if (stepRefs.current[index]) {
      stepRefs.current[index].scrollIntoView({ behavior: 'smooth', block: 'start' });
    }
  };
  \<close>
  The result is the new state and the list items asked to scroll into view.
\<close>

definition scrollToStep :: "app_state \<Rightarrow> int \<Rightarrow> app_state \<times> int list" where
  "scrollToStep st i =
     (st\<lparr>selectedStepIndex := Some i\<rparr>, if i \<in> stepRefs st then [i] else [])"

text \<open>The click handler of a bar of the waterfall, with \<^verbatim>\<open>onStepClick={scrollToStep}\<close>:
  \<^verbatim>\<open>(event, d) => { if (!d.isGap) onStepClick(d.index); }\<close>.\<close>

definition bar_click :: "app_state \<Rightarrow> segment \<Rightarrow> app_state \<times> int list" where
  "bar_click st d = (if \<not> isGap d then scrollToStep st (index d) else (st, []))"

text \<open>
  One rendering of the component: \<^verbatim>\<open>const timelineData = prepareTimelineData();\<close>, and
  the list of steps, drawn when \<^verbatim>\<open>runData\<close> is set, stores one element per step through
  \<^verbatim>\<open>ref={el => stepRefs.current[index] = el}\<close>.
\<close>

definition render :: "app_state \<Rightarrow> segment list \<times> app_state" where
  "render st =
     (prepareTimelineData (runData st) (selectedStepIndex st),
      case runData st of
        None \<Rightarrow> st
      | Some rd \<Rightarrow> st\<lparr>stepRefs := {0..<int (length (steps rd))}\<rparr>)"

section \<open>The cursor loop of the specification\<close>

text \<open>
  The specification describes the builder as one pass with a cursor: before each step a
  gap \<open>[cursor, rel_start)\<close> is emitted if \<open>rel_start > cursor\<close>, then the step, then
  the cursor is updated. This definition follows those words, for comparison with
  \<^const>\<open>forEachStep\<close>; the update of the cursor from the old cursor and the step's
  \<open>rel_end\<close> is a parameter (the specification takes their maximum).
\<close>

fun cursor_loop ::
  "(int \<Rightarrow> int \<Rightarrow> int) \<Rightarrow> int \<Rightarrow> int \<Rightarrow> int option \<Rightarrow> int \<Rightarrow> nat \<Rightarrow> step list \<Rightarrow> segment list" where
  "cursor_loop upd startTime endTime sel cursor i [] = []"
| "cursor_loop upd startTime endTime sel cursor i (st # rest) =
     (let seg = stepSegment startTime endTime sel i st;
          rel_start = actualStart seg;
          rel_end = actualEnd seg
      in (if cursor < rel_start then [gap cursor (rel_start - cursor) rel_start] else [])
         @ seg # cursor_loop upd startTime endTime sel (upd cursor rel_end) (Suc i) rest)"

text \<open>What the timeline shows of a segment: kind, source index, start and end offset.\<close>

definition interval :: "segment \<Rightarrow> bool \<times> int \<times> int \<times> int" where
  "interval s = (isGap s, index s, actualStart s, actualEnd s)"

section \<open>The invariants of a segment sequence\<close>

text \<open>Two neighbours of a segment sequence are joined when the first ends where the second
  starts, or when both are steps and the first ends after the second has started (two
  input steps overlap).\<close>

definition joined :: "segment \<Rightarrow> segment \<Rightarrow> bool" where
  "joined a b =
     (actualEnd a = actualStart b \<or> (\<not> isGap a \<and> \<not> isGap b \<and> actualStart b < actualEnd a))"

text \<open>Steps as a finished run has them: every end is resolved and not before the start,
  and the steps are in the order of their starts.\<close>

definition well_formed_steps :: "step list \<Rightarrow> bool" where
  "well_formed_steps ss =
     (list_all (\<lambda>s. truthy (completed_at s) \<and> started_at s \<le> ToNumber (completed_at s)) ss
      \<and> sorted (map started_at ss))"

section \<open>Example inputs\<close>

definition example_step :: "int \<Rightarrow> int option \<Rightarrow> string \<Rightarrow> step" where
  "example_step s c t =
     \<lparr>created_at = s div 1000, started_at = s, completed_at = c, step_type = Some t\<rparr>"

definition example_run :: "int \<Rightarrow> int \<Rightarrow> step list \<Rightarrow> run_data" where
  "example_run s c ss =
     \<lparr>run_id = ''run_1'', thread_id = ''thread_1'', assistant_id = ''asst_1'',
      status = ''completed'', run_started_at = s, run_completed_at = c, steps = ss\<rparr>"

text \<open>A run of ten seconds whose second step lies inside the first and whose third step
  starts after the second has ended, while the first is still going.\<close>

definition nested_run :: run_data where
  "nested_run =
     example_run 0 10000
       [example_step 0 (Some 9000) ''a'', example_step 1000 (Some 2000) ''b'',
        example_step 3000 (Some 4000) ''c'']"

text \<open>A run of ten seconds whose last step is still open.\<close>

definition open_last_run :: run_data where
  "open_last_run =
     example_run 0 10000 [example_step 0 (Some 3000) ''a'', example_step 5000 None ''b'']"

text \<open>A run created at epoch second 1700000000 and seen ten seconds later, with one step
  that has not completed (\<^verbatim>\<open>completed_at: null\<close>).\<close>

definition inflight_run :: run_data where
  "inflight_run =
     example_run 1700000000000 1700000010000 [example_step 1700000000000 None ''tool_calls'']"

text \<open>Both requests succeed: the run completed after ten seconds, its two steps arrive
  newest first.\<close>

definition example_raw_run :: raw_run where
  "example_raw_run =
     \<lparr>raw_id = ''run_1'', raw_thread_id = ''thread_1'', raw_assistant_id = ''asst_1'',
      raw_status = ''completed'', run_created_at = 1700000000,
      raw_run_completed_at = Some 1700000010\<rparr>"

definition example_raw_steps :: "raw_step list" where
  "example_raw_steps =
     [\<lparr>raw_created_at = 1700000005, raw_completed_at = Some 1700000009,
        raw_type = Some ''message_creation''\<rparr>,
      \<lparr>raw_created_at = 1700000001, raw_completed_at = Some 1700000004,
        raw_type = Some ''tool_calls''\<rparr>]"

definition example_env :: env where
  "example_env =
     \<lparr>fetch_run = (\<lambda>url. Resolved \<lparr>resp_status = 200, resp_statusText = ''OK'',
                    resp_ok = True, resp_text = ''{...}'', resp_json = Some example_raw_run\<rparr>),
      fetch_steps = (\<lambda>url. Resolved \<lparr>resp_status = 200, resp_statusText = ''OK'',
                    resp_ok = True, resp_text = ''{...}'', resp_json = Some example_raw_steps\<rparr>),
      Date_now = 1700000020000,
      typeErrorMessage = ''Cannot read properties of null''\<rparr>"

definition example_state :: app_state where
  "example_state =
     \<lparr>runId = ''run_1'', threadId = ''thread_1'', assistantId = [], apiKey = ''sk-test'',
      debugMode = False, debugInfo = None, runData = Some nested_run, loading = False,
      error = None, selectedStepIndex = Some 1, stepRefs = {0..<3}\<rparr>"

section \<open>Properties of the timeline builder\<close>

lemma gap_fields [simp]:
  "isGap (gap a b c)" "duration (gap a b c) = b" "actualStart (gap a b c) = a"
  "actualEnd (gap a b c) = c" "index (gap a b c) = - 1"
  by (simp_all add: gap_def)

lemma stepSegment_fields [simp]:
  "\<not> isGap (stepSegment startTime endTime sel i st)"
  "index (stepSegment startTime endTime sel i st) = int i"
  "actualStart (stepSegment startTime endTime sel i st) = started_at st - startTime"
  "actualEnd (stepSegment startTime endTime sel i st) =
     (if truthy (completed_at st) then ToNumber (completed_at st) - startTime else endTime - startTime)"
  "duration (stepSegment startTime endTime sel i st) =
     (if truthy (completed_at st) then ToNumber (completed_at st) - startTime else endTime - startTime)
       - (started_at st - startTime)"
  by (simp_all add: stepSegment_def Let_def)

lemma forEachStep_invariants:
  "well_formed_steps (st # rest) \<Longrightarrow>
   sorted (map actualStart (forEachStep startTime endTime sel i (st # rest)))
   \<and> successively joined (forEachStep startTime endTime sel i (st # rest))
   \<and> actualEnd (last (forEachStep startTime endTime sel i (st # rest)))
       = ToNumber (completed_at (last (st # rest))) - startTime
   \<and> (\<forall>d \<in> set (forEachStep startTime endTime sel i (st # rest)).
        started_at st - startTime \<le> actualStart d
        \<and> actualStart d \<le> started_at (last (st # rest)) - startTime)"
proof (induction rest arbitrary: st i)
  case Nil
  then show ?case
    by (simp add: gapAfter_def well_formed_steps_def)
next
  case (Cons n rest)
  let ?F = "forEachStep startTime endTime sel (Suc i) (n # rest)"
  let ?seg = "stepSegment startTime endTime sel i st"
  have wf: "well_formed_steps (n # rest)"
    using Cons.prems by (simp add: well_formed_steps_def)
  note IH = Cons.IH [OF wf, of "Suc i"]
  have F: "?F \<noteq> []"
    by simp
  have "last (n # rest) \<in> set (n # rest)"
    by (rule last_in_set) simp
  then have le_last: "started_at st \<le> started_at (last (n # rest))"
    "started_at n \<le> started_at (last (n # rest))"
    using Cons.prems by (auto simp: well_formed_steps_def)
  have st: "truthy (completed_at st)" "started_at st \<le> ToNumber (completed_at st)"
    "started_at st \<le> started_at n" "truthy (completed_at n)"
    using Cons.prems by (simp_all add: well_formed_steps_def)
  have unfold: "forEachStep startTime endTime sel i (st # n # rest) =
      ?seg # gapAfter startTime st (n # rest) @ ?F"
    by simp
  have lasts: "last (st # n # rest) = last (n # rest)"
    by simp
  have hdF: "actualStart (hd ?F) = started_at n - startTime" "\<not> isGap (hd ?F)"
    by simp_all
  show ?case
  proof (cases "ToNumber (completed_at st) < started_at n")
    case True
    then have g: "gapAfter startTime st (n # rest) =
        [gap (ToNumber (completed_at st) - startTime)
           (started_at n - startTime - (ToNumber (completed_at st) - startTime))
           (started_at n - startTime)]"
      by (simp add: gapAfter_def Let_def)
    show ?thesis
      unfolding unfold g lasts
      using IH st True F hdF le_last
      by (auto simp: successively_Cons joined_def last_ConsR
          simp del: forEachStep.simps last.simps)
  next
    case False
    then have g: "gapAfter startTime st (n # rest) = []"
      by (simp add: gapAfter_def)
    show ?thesis
      unfolding unfold g lasts
      using IH st False F hdF le_last
      by (auto simp: successively_Cons joined_def last_ConsR
          simp del: forEachStep.simps last.simps)
  qed
qed

text \<open>
  On a run whose steps are well formed and lie inside the run, the sequence has the
  invariants of the specification: ascending start offsets, joined neighbours, first
  start offset 0, last end offset the duration of the run.
\<close>

lemma timeline_invariants_resolved:
  assumes "steps rd \<noteq> []" and "well_formed_steps (steps rd)"
    and "run_started_at rd \<le> started_at (hd (steps rd))"
    and "ToNumber (completed_at (last (steps rd))) \<le> run_completed_at rd"
  shows "sorted (map actualStart (prepareTimelineData (Some rd) sel))
    \<and> successively joined (prepareTimelineData (Some rd) sel)
    \<and> actualStart (hd (prepareTimelineData (Some rd) sel)) = 0
    \<and> actualEnd (last (prepareTimelineData (Some rd) sel)) = run_completed_at rd - run_started_at rd"
proof -
  obtain st rest where ss: "steps rd = st # rest"
    using assms(1) by (cases "steps rd") auto
  define F where "F = forEachStep (run_started_at rd) (run_completed_at rd) sel 0 (st # rest)"
  define l where "l = last (st # rest)"
  have "l \<in> set (st # rest)"
    unfolding l_def by (rule last_in_set) simp
  then have l: "started_at l \<le> ToNumber (completed_at l)" "started_at st \<le> started_at l"
    using assms(2) ss by (auto simp: well_formed_steps_def list_all_iff)
  have inv: "sorted (map actualStart F)" "successively joined F"
    "actualEnd (last F) = ToNumber (completed_at l) - run_started_at rd"
    "\<forall>d \<in> set F. started_at st - run_started_at rd \<le> actualStart d
       \<and> actualStart d \<le> started_at l - run_started_at rd"
    using forEachStep_invariants [of st rest "run_started_at rd" "run_completed_at rd" sel 0]
      assms(2) ss by (simp_all add: F_def l_def)
  have F: "F \<noteq> []" "actualStart (hd F) = started_at st - run_started_at rd"
    by (simp_all add: F_def)
  have ini: "initialGap (run_started_at rd) (st # rest) =
      (if run_started_at rd < started_at st
       then [gap 0 (started_at st - run_started_at rd) (started_at st - run_started_at rd)]
       else [])"
    by (simp add: initialGap_def Let_def)
  have fin: "finalGap (run_started_at rd) (run_completed_at rd) (st # rest) =
      (if ToNumber (completed_at l) < run_completed_at rd
       then [gap (ToNumber (completed_at l) - run_started_at rd)
               (run_completed_at rd - ToNumber (completed_at l))
               (run_completed_at rd - run_started_at rd)]
       else [])"
    by (simp add: finalGap_def Let_def l_def)
  have p: "prepareTimelineData (Some rd) sel =
      initialGap (run_started_at rd) (st # rest) @ F
        @ finalGap (run_started_at rd) (run_completed_at rd) (st # rest)"
    by (simp add: prepareTimelineData_def ss Let_def F_def)
  have bounds: "run_started_at rd \<le> started_at st"
    "ToNumber (completed_at l) \<le> run_completed_at rd"
    using assms(3,4) ss by (simp_all add: l_def)
  show ?thesis
    unfolding p ini fin
    using inv F bounds l
    by (auto simp: sorted_append successively_append_iff successively_Cons joined_def)
qed

text \<open>
  \<^bold>\<open>C1\<close> (defect of the code). The specification asks for a sequence ordered by start
  offset in which each segment ends where the next one starts. A step whose
  \<^verbatim>\<open>completed_at\<close> is \<^verbatim>\<open>null\<close> gets the end of the run as its end offset, but the test for
  the gap after the last step compares \<^verbatim>\<open>null\<close> itself with the end of the run: the
  comparison reads it as 0, so a gap is pushed that starts at \<open>0 - startTime\<close>. For a run
  created at epoch second 1700000000 with one step still running ten seconds later, the
  builder returns the step with offsets 0 to 10000 followed by a gap with offsets
  -1700000000000 to 10000: the start offsets descend, and the step does not end where the
  gap starts, although no two steps overlap. (With resolved ends the invariants hold:
  \<open>timeline_invariants_resolved\<close>.)
\<close>

theorem inflight_step_timeline:
  "map interval (prepareTimelineData (Some inflight_run) None) =
     [(False, 0, 0, 10000), (True, - 1, - 1700000000000, 10000)]
   \<and> map duration (prepareTimelineData (Some inflight_run) None) = [10000, 1700000010000]
   \<and> \<not> sorted (map actualStart (prepareTimelineData (Some inflight_run) None))"
  by (simp add: prepareTimelineData_def initialGap_def finalGap_def gapAfter_def inflight_run_def
      example_run_def example_step_def interval_def)

lemma forEachStep_cursor:
  "\<forall>s \<in> set (butlast (st # rest)). truthy (completed_at s) \<Longrightarrow>
   forEachStep startTime endTime sel i (st # rest) =
     stepSegment startTime endTime sel i st
       # cursor_loop (\<lambda>cursor rel_end. rel_end) startTime endTime sel
           (actualEnd (stepSegment startTime endTime sel i st)) (Suc i) rest"
proof (induction rest arbitrary: st i)
  case Nil
  then show ?case by (simp add: gapAfter_def)
next
  case (Cons n rest)
  have "forEachStep startTime endTime sel (Suc i) (n # rest) =
     stepSegment startTime endTime sel (Suc i) n
       # cursor_loop (\<lambda>cursor rel_end. rel_end) startTime endTime sel
           (actualEnd (stepSegment startTime endTime sel (Suc i) n)) (Suc (Suc i)) rest"
    using Cons.prems by (intro Cons.IH) simp
  moreover have "gapAfter startTime st (n # rest) =
     (if ToNumber (completed_at st) - startTime < started_at n - startTime
      then [gap (ToNumber (completed_at st) - startTime)
              (started_at n - startTime - (ToNumber (completed_at st) - startTime))
              (started_at n - startTime)]
      else [])"
    by (simp add: gapAfter_def Let_def)
  moreover have "truthy (completed_at st)"
    using Cons.prems by simp
  ultimately show ?case
    by (simp add: Let_def del: forEachStep.simps(2)) (simp)
qed

text \<open>
  \<^bold>\<open>C2\<close>, as the claim states it, fails: the builder keeps no running maximum. In
  \<^const>\<open>nested_run\<close> the first step lasts from 0 to 9000, the second from 1000 to 2000 and
  the third from 3000 to 4000. A cursor that never moves backward stands at 9000 when the
  third step (start 3000) is reached, so the claim allows no gap before it; the builder
  emits the gap from 2000 to 3000 there.
\<close>

theorem nested_steps_gap_counterexample:
  "map interval (prepareTimelineData (Some nested_run) None) =
     [(False, 0, 0, 9000), (False, 1, 1000, 2000), (True, - 1, 2000, 3000),
      (False, 2, 3000, 4000), (True, - 1, 4000, 10000)]
   \<and> map interval (cursor_loop max 0 10000 None 0 0 (steps nested_run)) =
     [(False, 0, 0, 9000), (False, 1, 1000, 2000), (False, 2, 3000, 4000)]"
  by (simp add: prepareTimelineData_def initialGap_def finalGap_def gapAfter_def nested_run_def
      example_run_def example_step_def interval_def)

text \<open>
  \<^bold>\<open>C2\<close>, amended. For every run in which each step but the last has a resolved end
  (\<^verbatim>\<open>completed_at\<close> neither \<^verbatim>\<open>null\<close> nor 0; the last step may be open, and the run may
  have no step), the builder's output before the trailing gap is that of the cursor loop in
  which the cursor starts at 0 and is set, after each step, to that step's end offset (not
  to the maximum with the old cursor, so it can move backward): a gap
  \<open>[cursor, rel_start)\<close> stands immediately before a step if and only if the step's
  start offset exceeds the end offset of the step before it (0 for the first step), and no
  gap stands before it otherwise.
\<close>

theorem gap_iff_start_after_previous_end:
  assumes "\<forall>s \<in> set (butlast (steps rd)). truthy (completed_at s)"
  shows "prepareTimelineData (Some rd) sel =
           cursor_loop (\<lambda>cursor rel_end. rel_end) (run_started_at rd) (run_completed_at rd) sel
               0 0 (steps rd)
             @ finalGap (run_started_at rd) (run_completed_at rd) (steps rd)"
proof (cases "steps rd")
  case Nil
  then show ?thesis
    by (simp add: prepareTimelineData_def finalGap_def)
next
  case (Cons st rest)
  show ?thesis
    using assms forEachStep_cursor [of st rest "run_started_at rd" "run_completed_at rd" sel 0]
    by (simp add: prepareTimelineData_def Cons initialGap_def Let_def
        del: forEachStep.simps(2) butlast.simps)
qed

theorem gap_iff_start_after_previous_end_witness:
  "list_all (\<lambda>s. truthy (completed_at s)) (butlast (steps open_last_run))
   \<and> map interval (prepareTimelineData (Some open_last_run) None) =
       map interval (cursor_loop (\<lambda>cursor rel_end. rel_end) 0 10000 None 0 0 (steps open_last_run)
         @ finalGap 0 10000 (steps open_last_run))
   \<and> map interval (prepareTimelineData (Some open_last_run) None) =
       [(False, 0, 0, 3000), (True, - 1, 3000, 5000), (False, 1, 5000, 10000),
        (True, - 1, 0, 10000)]"
proof -
  have b: "\<forall>s \<in> set (butlast (steps open_last_run)). truthy (completed_at s)"
    by (simp add: open_last_run_def example_run_def example_step_def)
  have c: "run_started_at open_last_run = 0" "run_completed_at open_last_run = 10000"
    by (simp_all add: open_last_run_def example_run_def)
  have v: "map interval (cursor_loop (\<lambda>cursor rel_end. rel_end) 0 10000 None 0 0
             (steps open_last_run) @ finalGap 0 10000 (steps open_last_run)) =
       [(False, 0, 0, 3000), (True, - 1, 3000, 5000), (False, 1, 5000, 10000),
        (True, - 1, 0, 10000)]"
    by (simp add: open_last_run_def example_run_def example_step_def finalGap_def interval_def)
  have e: "prepareTimelineData (Some open_last_run) None =
      cursor_loop (\<lambda>cursor rel_end. rel_end) 0 10000 None 0 0 (steps open_last_run)
        @ finalGap 0 10000 (steps open_last_run)"
    using gap_iff_start_after_previous_end [OF b, of None] by (simp add: c)
  show ?thesis
    using b by (simp add: e v list_all_iff del: map_append)
qed

lemma label_3s: "formatDuration (Num 3000) = ''3s''"
  by code_simp

lemma label_2s: "formatDuration (Num 2000) = ''2s''"
  by code_simp

lemma name_1: "nat_toString (Suc 0) = ''1''"
  by code_simp

lemma name_2: "nat_toString (Suc (Suc 0)) = ''2''"
  by code_simp

text \<open>
  \<^bold>\<open>C3\<close>. For a run spanning 0 to 10000 with a step \<open>a\<close> from 0 to 3000 and a step \<open>b\<close>
  from 5000 to 8000, the builder returns exactly four segments: the step \<open>a\<close> with offsets
  0 to 3000, a gap from 3000 to 5000, the step \<open>b\<close> with offsets 5000 to 8000 and a gap
  from 8000 to 10000. For a run without steps, and before any run is loaded, it returns the
  empty list: no gap is made up.
\<close>

theorem scenario_two_steps_and_empty:
  "prepareTimelineData
     (Some \<lparr>run_id = rid, thread_id = tid, assistant_id = aid, status = stat,
            run_started_at = 0, run_completed_at = 10000,
            steps = [\<lparr>created_at = c1, started_at = 0, completed_at = Some 3000,
                       step_type = Some ''a''\<rparr>,
                     \<lparr>created_at = c2, started_at = 5000, completed_at = Some 8000,
                       step_type = Some ''b''\<rparr>]\<rparr>) sel =
     [\<lparr>name = ''1. a'', actualStart = 0, duration = 3000, actualEnd = 3000, index = 0,
        isSelected = Some (sel = Some 0), isGap = False, durationLabel = ''3s''\<rparr>,
      \<lparr>name = ''<unknown>'', actualStart = 3000, duration = 2000, actualEnd = 5000,
        index = - 1, isSelected = None, isGap = True, durationLabel = ''2s''\<rparr>,
      \<lparr>name = ''2. b'', actualStart = 5000, duration = 3000, actualEnd = 8000, index = 1,
        isSelected = Some (sel = Some 1), isGap = False, durationLabel = ''3s''\<rparr>,
      \<lparr>name = ''<unknown>'', actualStart = 8000, duration = 2000, actualEnd = 10000,
        index = - 1, isSelected = None, isGap = True, durationLabel = ''2s''\<rparr>]
   \<and> prepareTimelineData
       (Some \<lparr>run_id = rid, thread_id = tid, assistant_id = aid, status = stat,
              run_started_at = s, run_completed_at = c, steps = []\<rparr>) sel = []
   \<and> prepareTimelineData None sel = []"
  by (simp add: prepareTimelineData_def initialGap_def finalGap_def gapAfter_def
      stepSegment_def gap_def label_3s label_2s name_1 name_2)

lemma initialGap_positive: "s \<in> set (initialGap startTime ss) \<Longrightarrow> 0 < duration s"
  by (auto simp: initialGap_def Let_def split: list.splits if_splits)

lemma gapAfter_positive: "s \<in> set (gapAfter startTime st rest) \<Longrightarrow> 0 < duration s"
  by (auto simp: gapAfter_def Let_def split: list.splits if_splits)

lemma finalGap_positive: "s \<in> set (finalGap startTime endTime ss) \<Longrightarrow> 0 < duration s"
  by (auto simp: finalGap_def Let_def split: list.splits if_splits)

lemma forEachStep_gap_positive:
  "s \<in> set (forEachStep startTime endTime sel i ss) \<Longrightarrow> isGap s \<Longrightarrow> 0 < duration s"
  by (induction ss arbitrary: i) (auto dest: gapAfter_positive)

text \<open>
  \<^bold>\<open>C4\<close>. Whatever the run and its steps are (steps with an unresolved end and
  overlapping steps included), every gap in the sequence the builder returns has a
  duration greater than zero: each of the three places that push a gap does so under a
  strict comparison of the two timestamps whose difference is the duration.
\<close>

theorem gap_duration_positive:
  "s \<in> set (prepareTimelineData rdo sel) \<Longrightarrow> isGap s \<Longrightarrow> 0 < duration s"
  by (auto simp: prepareTimelineData_def Let_def split: option.splits if_splits
      dest: initialGap_positive finalGap_positive forEachStep_gap_positive)

theorem gap_duration_positive_witness:
  "gap (- 1700000000000) 1700000010000 10000 \<in> set (prepareTimelineData (Some inflight_run) None)
   \<and> isGap (gap (- 1700000000000) 1700000010000 10000)
   \<and> 0 < duration (gap (- 1700000000000) 1700000010000 10000)"
proof -
  have m: "gap (- 1700000000000) 1700000010000 10000
             \<in> set (prepareTimelineData (Some inflight_run) None)"
    by (simp add: prepareTimelineData_def initialGap_def finalGap_def gapAfter_def
        inflight_run_def example_run_def example_step_def)
  have g: "isGap (gap (- 1700000000000) 1700000010000 10000)" by simp
  show ?thesis using m g gap_duration_positive [OF m g] by simp
qed

section \<open>Properties of the duration formatter\<close>

lemma formatDuration_examples:
  "formatDuration Null = ''N/A''" "formatDuration NaN = ''N/A''"
  "formatDuration (Num 999) = ''999ms''" "formatDuration (Num 1000) = ''1s''"
  "formatDuration (Num 1500) = ''1.5s''" "formatDuration (Num 60000) = ''1m''"
  "formatDuration (Num 90000) = ''1m 30s''"
  by code_simp+

lemma formatDuration_below_second:
  "ms \<noteq> 0 \<Longrightarrow> ms < 1000 \<Longrightarrow>
   formatDuration (Num ms) = Number_toString \<lfloor>ms + 1 / 2\<rfloor> @ ''ms''"
  by (simp add: formatDuration.simps Math_round_def)

lemma round_half_even_close: "\<bar>of_int (round_half_even y) - y\<bar> \<le> 1 / 2"
proof -
  have "of_int \<lfloor>y\<rfloor> \<le> y" "y < of_int \<lfloor>y\<rfloor> + 1"
    by linarith+
  then show ?thesis
    by (auto simp: round_half_even_def Let_def)
qed

lemma round_half_even_of_int: "round_half_even (of_int n) = n"
  by (simp add: round_half_even_def)

lemma bitlen_below_64:
  assumes "0 < a" "a < 64"
  shows "1 \<le> bitlen a \<and> bitlen a \<le> 6"
proof -
  have pos: "1 \<le> bitlen a"
    using assms(1) bitlen_eq_zero_iff [of a] bitlen_nonneg [of a] by linarith
  have "bitlen a \<le> 6"
  proof (rule ccontr)
    assume "\<not> bitlen a \<le> 6"
    then have "6 \<le> nat (bitlen a - 1)" by simp
    then have "(2 :: int) ^ 6 \<le> 2 ^ nat (bitlen a - 1)"
      by (intro power_increasing) simp_all
    also have "\<dots> \<le> a"
      using bitlen_bounds [OF assms(1)] by simp
    finally show False using assms(2) by simp
  qed
  with pos show ?thesis by simp
qed

lemma nearest_double_seconds:
  assumes "1000 \<le> m" "m < 60000"
  shows "\<bar>nearest_double (of_int m / 1000) - of_int m / 1000\<bar> \<le> 1 / 2 ^ 48"
    and "1000 dvd m \<Longrightarrow> nearest_double (of_int m / 1000) = of_int (m div 1000)"
proof -
  define x :: rat where "x = of_int m / 1000"
  have fl: "\<lfloor>x\<rfloor> = m div 1000"
    unfolding x_def using floor_divide_of_int_eq [of m 1000, where ?'a = rat] by simp
  have "0 < m div 1000" "m div 1000 < 64"
    using assms by simp_all
  then have e: "1 \<le> bitlen \<lfloor>x\<rfloor>" "bitlen \<lfloor>x\<rfloor> \<le> 6"
    using bitlen_below_64 [of "m div 1000"] fl by simp_all
  define k where "k = nat (52 - (bitlen \<lfloor>x\<rfloor> - 1))"
  have k: "47 \<le> k" using e by (simp add: k_def)
  have nd: "nearest_double x = of_int (round_half_even (x * 2 ^ k)) / 2 ^ k"
    using e by (simp add: nearest_double_def Let_def k_def)
  have "\<bar>nearest_double x - x\<bar> = \<bar>of_int (round_half_even (x * 2 ^ k)) - x * 2 ^ k\<bar> / 2 ^ k"
    by (simp add: nd field_simps abs_divide)
  also have "\<dots> \<le> (1 / 2) / 2 ^ k"
    by (intro divide_right_mono round_half_even_close) simp
  also have "\<dots> \<le> (1 / 2) / 2 ^ 47"
    using k by (intro divide_left_mono power_increasing) simp_all
  finally show "\<bar>nearest_double (of_int m / 1000) - of_int m / 1000\<bar> \<le> 1 / 2 ^ 48"
    by (simp add: x_def)
  show "nearest_double (of_int m / 1000) = of_int (m div 1000)" if "1000 dvd m"
  proof -
    from that obtain j where j: "m = 1000 * j" by (auto elim: dvdE)
    have "x = of_int j" by (simp add: x_def j)
    then have "x * 2 ^ k = of_int (j * 2 ^ k)" by simp
    then have "round_half_even (x * 2 ^ k) = j * 2 ^ k"
      by (simp only: round_half_even_of_int)
    then show ?thesis
      using nd by (simp add: x_def j)
  qed
qed

text \<open>From one second up to a minute, for a whole number of milliseconds: the seconds
  without a decimal point when the duration is a whole number of seconds, with one decimal
  place otherwise.\<close>

lemma formatDuration_seconds:
  assumes "1000 \<le> m" "m < 60000"
  shows "formatDuration (Num (of_int m)) =
           (if 1000 dvd m then Number_toString (m div 1000)
            else toFixed1 (js_div (of_int m) 1000)) @ ''s''"
proof -
  define ts where "ts = js_div (of_int m) 1000"
  have close: "\<bar>ts - of_int m / 1000\<bar> \<le> 1 / 2 ^ 48"
    using nearest_double_seconds(1) [OF assms] by (simp add: ts_def js_div_def)
  have "(of_int m :: rat) \<le> 59999" using assms(2) by simp
  then have "of_int m / 1000 \<le> (59999 / 1000 :: rat)" by simp
  moreover from close have "ts - of_int m / 1000 \<le> 1 / 2 ^ 48" by linarith
  ultimately have "ts \<le> 59999 / 1000 + 1 / 2 ^ 48" by linarith
  then have lt: "ts < 60" by simp
  have whole: "of_int (Math_floor ts) = ts \<longleftrightarrow> 1000 dvd m"
  proof
    assume "of_int (Math_floor ts) = ts"
    then obtain j :: int where j: "ts = of_int j" by metis
    from close have "\<bar>(of_int j :: rat) * 1000 - of_int m\<bar> \<le> 1000 / 2 ^ 48"
      unfolding j by (simp add: abs_le_iff field_simps)
    then have "\<bar>(of_int (j * 1000 - m) :: rat)\<bar> < 1" by simp
    then have "\<bar>j * 1000 - m\<bar> < 1"
      by (metis of_int_abs of_int_less_1_iff)
    then have "m = 1000 * j" by simp
    then show "1000 dvd m" by simp
  next
    assume "1000 dvd m"
    then show "of_int (Math_floor ts) = ts"
      using nearest_double_seconds(2) [OF assms] by (simp add: ts_def js_div_def Math_floor_def)
  qed
  have fl: "1000 dvd m \<Longrightarrow> Math_floor ts = m div 1000"
    using nearest_double_seconds(2) [OF assms] by (simp add: ts_def js_div_def Math_floor_def)
  have "(of_int m :: rat) \<noteq> 0" "\<not> (of_int m :: rat) < 1000"
    using assms(1) by simp_all
  then show ?thesis
    using lt whole fl by (simp add: formatDuration.simps Let_def ts_def [symmetric])
qed

text \<open>
  \<^bold>\<open>C5\<close> (defect of the code). The formatter is to render a duration of 0 as
  \<^verbatim>\<open>0ms\<close>, with the other durations below a second. Its first line,
  \<^verbatim>\<open>if (!ms || isNaN(ms)) return 'N/A'\<close>, takes the number 0 for a missing value, as
  \<^verbatim>\<open>!0\<close> is true: the formatter returns \<^verbatim>\<open>N/A\<close> for 0. The component itself passes 0
  as a duration: the initial gap is built with \<^verbatim>\<open>actualStart: 0\<close>, which the tooltip
  formats, and the axis of the timeline, whose domain starts at 0, formats its ticks. The
  other parts of the claim hold (\<open>formatDuration_examples\<close>,
  \<open>formatDuration_below_second\<close>, \<open>formatDuration_seconds\<close>).
\<close>

theorem formatDuration_zero: "formatDuration (Num 0) = ''N/A''"
  by (simp add: formatDuration.simps)

text \<open>
  \<^bold>\<open>C10\<close>. For every negative number of milliseconds the formatter returns the value
  rounded to the nearest integer (the integer \<open>n\<close> with \<open>n - 1/2 \<le> ms < n + 1/2\<close>, a half
  going upward), written as a template literal writes a number, followed by \<^verbatim>\<open>ms\<close>: the
  branch for milliseconds tests only \<^verbatim>\<open>ms < 1000\<close>. So -500 is rendered as \<^verbatim>\<open>-500ms\<close>,
  -0.5 as \<^verbatim>\<open>0ms\<close>, -2.5 as \<^verbatim>\<open>-2ms\<close> and -2.75 as \<^verbatim>\<open>-3ms\<close>.
\<close>

theorem negative_duration_in_ms:
  "ms < 0 \<Longrightarrow>
   formatDuration (Num ms) = Number_toString \<lfloor>ms + 1 / 2\<rfloor> @ ''ms''
   \<and> of_int \<lfloor>ms + 1 / 2\<rfloor> - 1 / 2 \<le> ms \<and> ms < of_int \<lfloor>ms + 1 / 2\<rfloor> + 1 / 2"
proof -
  assume neg: "ms < 0"
  have "of_int \<lfloor>ms + 1 / 2\<rfloor> \<le> ms + 1 / 2" "ms + 1 / 2 < of_int \<lfloor>ms + 1 / 2\<rfloor> + 1"
    by linarith+
  then have "of_int \<lfloor>ms + 1 / 2\<rfloor> - 1 / 2 \<le> ms" "ms < of_int \<lfloor>ms + 1 / 2\<rfloor> + 1 / 2"
    by linarith+
  moreover have "formatDuration (Num ms) = Number_toString \<lfloor>ms + 1 / 2\<rfloor> @ ''ms''"
    using neg by (simp add: formatDuration.simps Math_round_def)
  ultimately show ?thesis by simp
qed

theorem negative_duration_in_ms_witness:
  "formatDuration (Num (- 500)) = ''-500ms''
   \<and> formatDuration (Num (- 1 / 2)) = ''0ms''
   \<and> formatDuration (Num (- 5 / 2)) = ''-2ms''
   \<and> formatDuration (Num (- 11 / 4)) = ''-3ms''
   \<and> formatDuration (Num (- (2 ^ 60))) = ''-1152921504606847000ms''
   \<and> formatDuration (Num (- (10 ^ 21))) = ''-1e+21ms''"
proof -
  have r: "\<lfloor>- (999 / 2) :: rat\<rfloor> = - 500" "\<lfloor>- (9 / 4) :: rat\<rfloor> = - 3"
    "\<lfloor>- (2305843009213693951 / 2) :: rat\<rfloor> = - 1152921504606846976"
    "\<lfloor>- (1999999999999999999999 / 2) :: rat\<rfloor> = - 1000000000000000000000"
    by (rule floor_unique; simp)+
  have d: "Number_toString (- 500) = ''-500''" "Number_toString 0 = ''0''"
    "Number_toString (- 2) = ''-2''" "Number_toString (- 3) = ''-3''"
    "Number_toString (- 1152921504606846976) = ''-1152921504606847000''"
    "Number_toString (- 1000000000000000000000) = ''-1e+21''"
    by code_simp+
  show ?thesis
    using negative_duration_in_ms [of "- 500"] negative_duration_in_ms [of "- 1 / 2"]
      negative_duration_in_ms [of "- 5 / 2"] negative_duration_in_ms [of "- 11 / 4"]
      negative_duration_in_ms [of "- (2 ^ 60)"] negative_duration_in_ms [of "- (10 ^ 21)"]
    by (simp add: r d)
qed

section \<open>Properties of normalization, fetching and selection\<close>

text \<open>
  \<^bold>\<open>C6\<close>. For every raw timestamp in epoch seconds, normalization returns that value
  multiplied by 1000: the creation time of a step and of a run, the completion time of a
  run and of a step. For a raw completion time that is \<^verbatim>\<open>null\<close> the fallback is taken: the
  current time for the end of a run; for a step the stored value stays \<^verbatim>\<open>null\<close> and the
  step's end offset in the timeline is that of the run's end.
\<close>

theorem timestamps_normalized:
  "(epoch_seconds (raw_created_at s) \<longrightarrow>
      started_at (transformStep s) = raw_created_at s * 1000)
   \<and> (epoch_seconds (run_created_at info) \<longrightarrow>
      run_started_at (processedData e st info ss) = run_created_at info * 1000)
   \<and> (epoch_seconds c \<and> raw_run_completed_at info = Some c \<longrightarrow>
        run_completed_at (processedData e st info ss) = c * 1000)
   \<and> (raw_run_completed_at info = None \<longrightarrow>
        run_completed_at (processedData e st info ss) = Date_now e)
   \<and> (epoch_seconds c \<and> raw_completed_at s = Some c \<longrightarrow>
        completed_at (transformStep s) = Some (c * 1000)
        \<and> actualEnd (stepSegment startTime endTime sel i (transformStep s)) = c * 1000 - startTime)
   \<and> (raw_completed_at s = None \<longrightarrow>
        completed_at (transformStep s) = None
        \<and> actualEnd (stepSegment startTime endTime sel i (transformStep s)) = endTime - startTime)"
  by (auto simp: transformStep_def processedData_def epoch_seconds_def)

theorem timestamps_normalized_witness:
  "epoch_seconds 1700000010 \<and> epoch_seconds 1700000009 \<and> epoch_seconds 1700000005
   \<and> epoch_seconds 1700000000
   \<and> raw_run_completed_at example_raw_run = Some 1700000010
   \<and> run_started_at (processedData example_env example_state example_raw_run []) = 1700000000000
   \<and> run_completed_at (processedData example_env example_state example_raw_run []) = 1700000010000
   \<and> raw_run_completed_at (example_raw_run\<lparr>raw_run_completed_at := None\<rparr>) = None
   \<and> run_completed_at (processedData example_env example_state
         (example_raw_run\<lparr>raw_run_completed_at := None\<rparr>) []) = 1700000020000
   \<and> raw_completed_at (hd example_raw_steps) = Some 1700000009
   \<and> started_at (transformStep (hd example_raw_steps)) = 1700000005000
   \<and> completed_at (transformStep (hd example_raw_steps)) = Some 1700000009000
   \<and> raw_completed_at ((hd example_raw_steps)\<lparr>raw_completed_at := None\<rparr>) = None
   \<and> actualEnd (stepSegment 1700000000000 1700000010000 None 0
         (transformStep ((hd example_raw_steps)\<lparr>raw_completed_at := None\<rparr>))) = 10000"
proof -
  have ep: "epoch_seconds 1700000010 \<and> epoch_seconds 1700000009 \<and> epoch_seconds 1700000005
      \<and> epoch_seconds 1700000000"
    by (simp add: epoch_seconds_def)
  have a: "raw_run_completed_at example_raw_run = Some 1700000010"
    "run_created_at example_raw_run = 1700000000"
    by (simp_all add: example_raw_run_def)
  have b: "raw_run_completed_at (example_raw_run\<lparr>raw_run_completed_at := None\<rparr>) = None"
    by simp
  have c: "raw_completed_at (hd example_raw_steps) = Some 1700000009"
    "raw_created_at (hd example_raw_steps) = 1700000005"
    by (simp_all add: example_raw_steps_def)
  have d: "raw_completed_at ((hd example_raw_steps)\<lparr>raw_completed_at := None\<rparr>) = None"
    by simp
  have now: "Date_now example_env = 1700000020000"
    by (simp add: example_env_def)
  show ?thesis
    using ep a b c d
      timestamps_normalized [where s = "hd example_raw_steps" and e = example_env
        and st = example_state and info = example_raw_run and ss = "[]" and c = 1700000010]
      timestamps_normalized [where s = "hd example_raw_steps" and c = 1700000009]
      timestamps_normalized [where s = "(hd example_raw_steps)\<lparr>raw_completed_at := None\<rparr>"
        and e = example_env and st = example_state
        and info = "example_raw_run\<lparr>raw_run_completed_at := None\<rparr>" and ss = "[]"
        and startTime = 1700000000000 and endTime = 1700000010000 and sel = None and i = 0]
    by (simp add: now)
qed

lemma update_debug_selection [simp]:
  "selectedStepIndex (update_debug f st) = selectedStepIndex st"
  by (simp add: update_debug_def)

lemma fetch_failed_selection [simp]:
  "selectedStepIndex (fetch_failed msg st) = selectedStepIndex st"
  by (simp add: fetch_failed_def)

lemma fetch_begin_selection [simp]:
  "selectedStepIndex (fetch_begin st) = selectedStepIndex st"
  by (simp add: fetch_begin_def Let_def)

lemma request_run_selection:
  "request_run e st = (st', r) \<Longrightarrow> selectedStepIndex st' = selectedStepIndex st"
  by (auto simp: request_run_def Let_def split: fetch_result.splits if_splits)

lemma request_steps_selection:
  "request_steps e st = (st', r) \<Longrightarrow> selectedStepIndex st' = selectedStepIndex st"
  by (auto simp: request_steps_def Let_def split: fetch_result.splits if_splits)

lemma apply_responses_selection [simp]:
  "selectedStepIndex (apply_responses e st st4 runInfo stepsData) = selectedStepIndex st4"
  by (simp add: apply_responses_def split: option.splits)

lemma fetch_steps_phase_selection [simp]:
  "selectedStepIndex (fetch_steps_phase e st st2 runInfo) = selectedStepIndex st2"
  by (auto simp: fetch_steps_phase_def Let_def split: prod.splits outcome.splits
      dest: request_steps_selection)

lemma fetchRunData_selection:
  "selectedStepIndex (fst (fetchRunData e st)) = selectedStepIndex st"
  by (auto simp: fetchRunData_def split: prod.splits outcome.splits
      dest: request_run_selection)

lemma example_fetch:
  "fetchRunData example_env example_state =
     (example_state\<lparr>runData := Some
        \<lparr>run_id = ''run_1'', thread_id = ''thread_1'', assistant_id = ''asst_1'',
         status = ''completed'', run_started_at = 1700000000000,
         run_completed_at = 1700000010000,
         steps = [\<lparr>created_at = 1700000001, started_at = 1700000001000,
                    completed_at = Some 1700000004000, step_type = Some ''tool_calls''\<rparr>,
                  \<lparr>created_at = 1700000005, started_at = 1700000005000,
                    completed_at = Some 1700000009000,
                    step_type = Some ''message_creation''\<rparr>]\<rparr>\<rparr>,
      [''https://api.openai.com/v1/threads/thread_1/runs/run_1'',
       ''https://api.openai.com/v1/threads/thread_1/runs/run_1/steps?limit=100''])"
  by (simp add: fetchRunData_def inputs_missing_def example_state_def example_env_def
      request_run_def request_steps_def fetch_begin_def fetch_steps_phase_def apply_responses_def
      processedData_def transformedSteps_def transformStep_def example_raw_run_def
      example_raw_steps_def run_url_def steps_url_def message_or_def Let_def)

text \<open>
  \<^bold>\<open>C7\<close>, as the claim states it, fails in its second half: \<^verbatim>\<open>fetchRunData\<close> never
  calls \<^verbatim>\<open>setSelectedStepIndex\<close>. With step 1 selected and all three inputs present, the
  selection is still step 1 when the fetch has begun, and still step 1 when the fetch has
  replaced the run data.
\<close>

theorem fetch_keeps_selection_counterexample:
  "selectedStepIndex example_state = Some 1
   \<and> \<not> inputs_missing example_state
   \<and> selectedStepIndex (fetch_begin example_state) = Some 1
   \<and> selectedStepIndex (fst (fetchRunData example_env example_state)) = Some 1
   \<and> runData (fst (fetchRunData example_env example_state)) \<noteq> runData example_state"
  by (simp add: example_fetch fetch_begin_def)
    (simp add: example_state_def inputs_missing_def nested_run_def example_run_def)

text \<open>
  \<^bold>\<open>C7\<close>, amended. The selected step index is unchanged by a rendering of the
  component, which recomputes the segment sequence, and it is unchanged by a fetch as
  well, when the fetch begins and when it has run to its end, whatever the responses are:
  only \<^verbatim>\<open>scrollToStep\<close> writes it.
\<close>

theorem selection_survives_render_and_fetch:
  "selectedStepIndex (snd (render st)) = selectedStepIndex st
   \<and> selectedStepIndex (fetch_begin st) = selectedStepIndex st
   \<and> selectedStepIndex (fst (fetchRunData e st)) = selectedStepIndex st"
  by (simp add: fetchRunData_selection render_def split: option.splits)

lemma gapAfter_is_gap: "d \<in> set (gapAfter startTime st rest) \<Longrightarrow> isGap d \<and> index d = - 1"
  by (auto simp: gapAfter_def Let_def split: list.splits if_splits)

lemma initialGap_is_gap: "d \<in> set (initialGap startTime ss) \<Longrightarrow> isGap d \<and> index d = - 1"
  by (auto simp: initialGap_def Let_def split: list.splits if_splits)

lemma finalGap_is_gap: "d \<in> set (finalGap startTime endTime ss) \<Longrightarrow> isGap d \<and> index d = - 1"
  by (auto simp: finalGap_def Let_def split: list.splits if_splits)

lemma forEachStep_index:
  "d \<in> set (forEachStep startTime endTime sel i ss) \<Longrightarrow>
   (isGap d \<and> index d = - 1)
   \<or> (\<not> isGap d \<and> int i \<le> index d \<and> index d < int i + int (length ss))"
proof (induction ss arbitrary: i)
  case Nil
  then show ?case by simp
next
  case (Cons st rest)
  from Cons.prems consider "d = stepSegment startTime endTime sel i st"
    | "d \<in> set (gapAfter startTime st rest)"
    | "d \<in> set (forEachStep startTime endTime sel (Suc i) rest)"
    by auto
  then show ?case
  proof cases
    case 1
    then show ?thesis by simp
  next
    case 2
    then show ?thesis using gapAfter_is_gap by blast
  next
    case 3
    from Cons.IH [OF 3] show ?thesis by auto
  qed
qed

lemma timeline_index:
  "d \<in> set (prepareTimelineData (Some rd) sel) \<Longrightarrow>
   (isGap d \<and> index d = - 1)
   \<or> (\<not> isGap d \<and> 0 \<le> index d \<and> index d < int (length (steps rd)))"
  using forEachStep_index [of d "run_started_at rd" "run_completed_at rd" sel 0 "steps rd"]
  by (auto simp: prepareTimelineData_def Let_def split: if_splits
      dest: initialGap_is_gap finalGap_is_gap)

text \<open>
  \<^bold>\<open>C8\<close>. \<^verbatim>\<open>scrollToStep(index)\<close> sets the selected index to its argument whatever was
  selected before, and changes nothing else of the state; for every index of a step of the
  rendered run it asks the list item of that step to scroll into view. A click on a bar
  of a step calls it with the step's index. A bar that carries the index -1 is a gap, and
  a click on a gap calls nothing: the state, the selection with it, stays as it was and no
  item is asked to scroll.
\<close>

theorem select_replaces_and_gap_click_ignored:
  "fst (scrollToStep st i) = st\<lparr>selectedStepIndex := Some i\<rparr>
   \<and> (runData st = Some rd \<and> 0 \<le> i \<and> i < int (length (steps rd)) \<longrightarrow>
        snd (scrollToStep (snd (render st)) i) = [i])
   \<and> (d \<in> set (fst (render st)) \<and> \<not> isGap d \<longrightarrow>
        bar_click (snd (render st)) d
          = ((snd (render st))\<lparr>selectedStepIndex := Some (index d)\<rparr>, [index d]))
   \<and> (d \<in> set (fst (render st)) \<and> index d = - 1 \<longrightarrow> isGap d)
   \<and> (isGap d \<longrightarrow> bar_click st d = (st, []))"
proof -
  have "bar_click (snd (render st)) d
          = ((snd (render st))\<lparr>selectedStepIndex := Some (index d)\<rparr>, [index d])"
    if "d \<in> set (fst (render st))" and "\<not> isGap d"
  proof (cases "runData st")
    case None
    with that show ?thesis by (simp add: render_def prepareTimelineData_def)
  next
    case (Some rd')
    with that timeline_index [of d rd' "selectedStepIndex st"]
    show ?thesis by (auto simp: render_def bar_click_def scrollToStep_def)
  qed
  moreover have "isGap d" if "d \<in> set (fst (render st))" and "index d = - 1"
  proof (cases "runData st")
    case None
    with that show ?thesis by (simp add: render_def prepareTimelineData_def)
  next
    case (Some rd')
    with that timeline_index [of d rd' "selectedStepIndex st"]
    show ?thesis by (auto simp: render_def)
  qed
  ultimately show ?thesis
    by (auto simp: scrollToStep_def render_def bar_click_def)
qed

theorem select_replaces_and_gap_click_ignored_witness:
  "fst (scrollToStep example_state 2) = example_state\<lparr>selectedStepIndex := Some 2\<rparr>
   \<and> runData example_state = Some nested_run \<and> (0 :: int) \<le> 2
   \<and> (2 :: int) < int (length (steps nested_run))
   \<and> snd (scrollToStep (snd (render example_state)) 2) = [2]
   \<and> hd (fst (render example_state)) \<in> set (fst (render example_state))
   \<and> \<not> isGap (hd (fst (render example_state)))
   \<and> snd (bar_click (snd (render example_state)) (hd (fst (render example_state)))) = [0]
   \<and> gap 2000 1000 3000 \<in> set (fst (render example_state))
   \<and> index (gap 2000 1000 3000) = - 1 \<and> isGap (gap 2000 1000 3000)
   \<and> bar_click example_state (gap 2000 1000 3000) = (example_state, [])"
proof -
  have tl: "fst (render example_state) =
      [stepSegment 0 10000 (Some 1) 0 (example_step 0 (Some 9000) ''a''),
       stepSegment 0 10000 (Some 1) 1 (example_step 1000 (Some 2000) ''b''),
       gap 2000 1000 3000,
       stepSegment 0 10000 (Some 1) 2 (example_step 3000 (Some 4000) ''c''),
       gap 4000 6000 10000]"
    by (simp add: render_def example_state_def prepareTimelineData_def nested_run_def
        example_run_def initialGap_def finalGap_def gapAfter_def example_step_def
        numeral_2_eq_2)
  have rd: "runData example_state = Some nested_run \<and> (0 :: int) \<le> 2
      \<and> (2 :: int) < int (length (steps nested_run))"
    by (simp add: example_state_def nested_run_def example_run_def)
  have step: "hd (fst (render example_state)) \<in> set (fst (render example_state))
      \<and> \<not> isGap (hd (fst (render example_state)))"
    by (simp add: tl)
  have g: "gap 2000 1000 3000 \<in> set (fst (render example_state))
      \<and> index (gap 2000 1000 3000) = - 1"
    by (simp add: tl)
  have i0: "index (hd (fst (render example_state))) = 0"
    by (simp add: tl)
  show ?thesis
    using rd step g
      select_replaces_and_gap_click_ignored [of example_state 2 nested_run
        "hd (fst (render example_state))"]
      select_replaces_and_gap_click_ignored [of example_state 2 nested_run "gap 2000 1000 3000"]
    by (simp add: i0)
qed

text \<open>
  \<^bold>\<open>C9\<close>. If the run id, the thread id or the API key is missing (the empty string),
  \<^verbatim>\<open>fetchRunData\<close> sets the error message
  \<^verbatim>\<open>Run ID, Thread ID, and API Key are required\<close> and returns: it requests no URL, and
  run data, loading flag, debug information and selection are those of the state before.
\<close>

theorem missing_input_validation:
  "runId st = [] \<or> threadId st = [] \<or> apiKey st = [] \<Longrightarrow>
   fetchRunData e st = (st\<lparr>error := Some ''Run ID, Thread ID, and API Key are required''\<rparr>, [])"
  by (simp add: fetchRunData_def inputs_missing_def)

theorem missing_input_validation_witness:
  "(runId (example_state\<lparr>apiKey := []\<rparr>) = [] \<or> threadId (example_state\<lparr>apiKey := []\<rparr>) = []
      \<or> apiKey (example_state\<lparr>apiKey := []\<rparr>) = [])
   \<and> fetchRunData example_env (example_state\<lparr>apiKey := []\<rparr>) =
       (example_state\<lparr>apiKey := [],
          error := Some ''Run ID, Thread ID, and API Key are required''\<rparr>, [])"
proof -
  have h: "runId (example_state\<lparr>apiKey := []\<rparr>) = [] \<or> threadId (example_state\<lparr>apiKey := []\<rparr>) = []
      \<or> apiKey (example_state\<lparr>apiKey := []\<rparr>) = []"
    by simp
  show ?thesis
    using h missing_input_validation [OF h, of example_env] by simp
qed

end
